theory Spec2Isabelle
  imports Main "HOL-Library.Word"
begin

section \<open>The font collection of txt\<close>

text \<open>
  \<^verbatim>\<open>txt::FontCollection\<close> holds four nullable, reference-counted font manager handles
  (\<^verbatim>\<open>sk_sp<SkFontMgr>\<close>), a flag, and a nullable reference-counted pointer to a
  \<^verbatim>\<open>skia::textlayout::FontCollection\<close> built on demand.

  A nullable handle is an \<open>option\<close>; the type \<open>'m\<close> stands for the font manager
  objects, about which this unit knows nothing but their identity. The members keep
  their names without the trailing underscore, which an Isabelle name cannot end with.
\<close>

subsection \<open>Objects and references\<close>

text \<open>
  The Skia collection is a heap object that the registry and its callers share: the
  accessor hands out the pointer, and \<^verbatim>\<open>DisableFontFallback\<close> and
  \<^verbatim>\<open>ClearFontFamilyCache\<close> mutate the object behind it. The store is the list of
  all objects made so far and a reference is an index into it. \<^verbatim>\<open>sk_make_sp\<close> appends,
  so a reference names one object for ever: identity here is the identity of the object,
  which the holder of a returned \<^verbatim>\<open>sk_sp\<close> keeps alive, and not a machine address that
  an allocator could hand out again once every reference is gone.
\<close>

type_synonym ref = nat

definition sk_make_sp :: "'o \<Rightarrow> 'o list \<Rightarrow> ref \<times> 'o list" where
  "sk_make_sp obj h = (length h, h @ [obj])"

text \<open>
  A method call through a pointer, \<^verbatim>\<open>p->f()\<close>. Through a reference that names no
  object the C++ is undefined; the model leaves the store alone there, and the
  well-formedness predicate below excludes the case.
\<close>

definition invoke :: "ref \<Rightarrow> ('o \<Rightarrow> 'o) \<Rightarrow> 'o list \<Rightarrow> 'o list" where
  "invoke p f h = (if p < length h then h[p := f (h ! p)] else h)"

subsection \<open>The composite: skia::textlayout::FontCollection\<close>

text \<open>
  Modelled from the spec: the class \<^verbatim>\<open>skia::textlayout::FontCollection\<close> (the spec's
  composite resolver) is declared outside this source file, which only calls its
  constructor and six of its methods. Following sections 3, 4.1 and 6 of the spec, the
  composite has one slot per provider, the default family list, a live fallback toggle
  that starts enabled, and a per-family memo that a cache-clear instruction empties
  without touching the wiring. The memo is represented by the family names that have a
  memoised result; what is memoised for them is outside this unit.
\<close>

record 'm SktFontCollection =
  default_provider :: "'m option"
  default_families :: "string list"
  asset_provider :: "'m option"
  dynamic_provider :: "'m option"
  test_provider :: "'m option"
  fallback_enabled :: bool
  family_memo :: "string list"

definition SktFontCollection_new :: "'m SktFontCollection" where
  "SktFontCollection_new =
     \<lparr>default_provider = None, default_families = [], asset_provider = None,
      dynamic_provider = None, test_provider = None, fallback_enabled = True,
      family_memo = []\<rparr>"

definition setDefaultFontManager ::
    "'m option \<Rightarrow> string list \<Rightarrow> 'm SktFontCollection \<Rightarrow> 'm SktFontCollection" where
  "setDefaultFontManager font_manager families c =
     c\<lparr>default_provider := font_manager, default_families := families\<rparr>"

definition setAssetFontManager :: "'m option \<Rightarrow> 'm SktFontCollection \<Rightarrow> 'm SktFontCollection" where
  "setAssetFontManager font_manager c = c\<lparr>asset_provider := font_manager\<rparr>"

definition setDynamicFontManager :: "'m option \<Rightarrow> 'm SktFontCollection \<Rightarrow> 'm SktFontCollection" where
  "setDynamicFontManager font_manager c = c\<lparr>dynamic_provider := font_manager\<rparr>"

definition setTestFontManager :: "'m option \<Rightarrow> 'm SktFontCollection \<Rightarrow> 'm SktFontCollection" where
  "setTestFontManager font_manager c = c\<lparr>test_provider := font_manager\<rparr>"

definition disableFontFallback :: "'m SktFontCollection \<Rightarrow> 'm SktFontCollection" where
  "disableFontFallback c = c\<lparr>fallback_enabled := False\<rparr>"

definition clearCaches :: "'m SktFontCollection \<Rightarrow> 'm SktFontCollection" where
  "clearCaches c = c\<lparr>family_memo := []\<rparr>"

subsection \<open>The platform\<close>

text \<open>
  \<^verbatim>\<open>GetDefaultFontManager\<close> and \<^verbatim>\<open>GetDefaultFontFamilies\<close> come from
  \<^verbatim>\<open>txt/platform.h\<close> and differ per platform; they are parameters of the model.
\<close>

record 'm platform =
  GetDefaultFontManager :: "32 word \<Rightarrow> 'm option"
  GetDefaultFontFamilies :: "string list"

subsection \<open>The registry: txt::FontCollection\<close>

record 'm FontCollection =
  enable_font_fallback :: bool
  default_font_manager :: "'m option"
  asset_font_manager :: "'m option"
  dynamic_font_manager :: "'m option"
  test_font_manager :: "'m option"
  skt_collection :: "ref option"

text \<open>A state is the registry with the store of composites.\<close>

type_synonym 'm state = "'m FontCollection \<times> 'm SktFontCollection list"

text \<open>
  The constructor only initialises the flag; the five smart pointers are null by their
  own default constructors.
\<close>

definition FontCollection_new :: "'m FontCollection" where
  "FontCollection_new =
     \<lparr>enable_font_fallback = True, default_font_manager = None, asset_font_manager = None,
      dynamic_font_manager = None, test_font_manager = None, skt_collection = None\<rparr>"

definition push_back :: "'a list \<Rightarrow> 'a \<Rightarrow> 'a list" where
  "push_back v x = v @ [x]"

text \<open>
  The vector holds \<^verbatim>\<open>sk_sp<SkFontMgr>\<close> values, so its elements have the type of the
  slots; each test \<^verbatim>\<open>if (m)\<close> is a test for a non-null handle.
\<close>

definition GetFontManagerOrder :: "'m FontCollection \<Rightarrow> 'm option list" where
  "GetFontManagerOrder fc =
     (let order = [];
          order = (if dynamic_font_manager fc \<noteq> None
                   then push_back order (dynamic_font_manager fc) else order);
          order = (if asset_font_manager fc \<noteq> None
                   then push_back order (asset_font_manager fc) else order);
          order = (if test_font_manager fc \<noteq> None
                   then push_back order (test_font_manager fc) else order);
          order = (if default_font_manager fc \<noteq> None
                   then push_back order (default_font_manager fc) else order)
      in order)"

text \<open>
  The result is a \<^verbatim>\<open>size_t\<close>; the vector never has more than four elements, so the
  natural number is exact.
\<close>

definition GetFontManagersCount :: "'m FontCollection \<Rightarrow> nat" where
  "GetFontManagersCount fc = length (GetFontManagerOrder fc)"

fun SetupDefaultFontManager :: "'m platform \<Rightarrow> 32 word \<Rightarrow> 'm state \<Rightarrow> 'm state" where
  "SetupDefaultFontManager pf font_initialization_data (fc, h) =
     (fc\<lparr>default_font_manager := GetDefaultFontManager pf font_initialization_data,
         skt_collection := None\<rparr>, h)"

fun SetDefaultFontManager :: "'m option \<Rightarrow> 'm state \<Rightarrow> 'm state" where
  "SetDefaultFontManager font_manager (fc, h) =
     (fc\<lparr>default_font_manager := font_manager, skt_collection := None\<rparr>, h)"

fun SetAssetFontManager :: "'m option \<Rightarrow> 'm state \<Rightarrow> 'm state" where
  "SetAssetFontManager font_manager (fc, h) =
     (fc\<lparr>asset_font_manager := font_manager, skt_collection := None\<rparr>, h)"

fun SetDynamicFontManager :: "'m option \<Rightarrow> 'm state \<Rightarrow> 'm state" where
  "SetDynamicFontManager font_manager (fc, h) =
     (fc\<lparr>dynamic_font_manager := font_manager, skt_collection := None\<rparr>, h)"

fun SetTestFontManager :: "'m option \<Rightarrow> 'm state \<Rightarrow> 'm state" where
  "SetTestFontManager font_manager (fc, h) =
     (fc\<lparr>test_font_manager := font_manager, skt_collection := None\<rparr>, h)"

fun DisableFontFallback :: "'m state \<Rightarrow> 'm state" where
  "DisableFontFallback (fc, h) =
     (let fc = fc\<lparr>enable_font_fallback := False\<rparr>
      in case skt_collection fc of
           Some p \<Rightarrow> (fc, invoke p disableFontFallback h)
         | None \<Rightarrow> (fc, h))"

fun ClearFontFamilyCache :: "'m state \<Rightarrow> 'm state" where
  "ClearFontFamilyCache (fc, h) =
     (case skt_collection fc of
        Some p \<Rightarrow> (fc, invoke p clearCaches h)
      | None \<Rightarrow> (fc, h))"

text \<open>
  The loop of \<^verbatim>\<open>CreateSktFontCollection\<close> that copies the platform's family names
  into a vector of \<^verbatim>\<open>SkString\<close>, one \<^verbatim>\<open>emplace_back\<close> per name.
\<close>

fun copy_families :: "string list \<Rightarrow> string list \<Rightarrow> string list" where
  "copy_families default_font_families [] = default_font_families"
| "copy_families default_font_families (family # rest) =
     copy_families (push_back default_font_families family) rest"

text \<open>
  The accessor returns the member \<^verbatim>\<open>skt_collection_\<close>, with the state it leaves.
\<close>

fun CreateSktFontCollection :: "'m platform \<Rightarrow> 'm state \<Rightarrow> ref option \<times> 'm state" where
  "CreateSktFontCollection pf (fc, h) =
     (case skt_collection fc of
        Some p \<Rightarrow> (skt_collection fc, (fc, h))
      | None \<Rightarrow>
          (let (p, h) = sk_make_sp SktFontCollection_new h;
               fc = fc\<lparr>skt_collection := Some p\<rparr>;
               default_font_families = copy_families [] (GetDefaultFontFamilies pf);
               h = invoke p (setDefaultFontManager (default_font_manager fc)
                               default_font_families) h;
               h = invoke p (setAssetFontManager (asset_font_manager fc)) h;
               h = invoke p (setDynamicFontManager (dynamic_font_manager fc)) h;
               h = invoke p (setTestFontManager (test_font_manager fc)) h;
               h = (if \<not> enable_font_fallback fc
                    then invoke p disableFontFallback h else h)
           in (skt_collection fc, (fc, h))))"

subsection \<open>Sequences of calls\<close>

text \<open>
  The public operations of the registry, as a caller issues them one after the other.
  The two queries leave the state as it is.
\<close>

datatype 'm call =
    CallSetupDefaultFontManager "32 word"
  | CallSetDefaultFontManager "'m option"
  | CallSetAssetFontManager "'m option"
  | CallSetDynamicFontManager "'m option"
  | CallSetTestFontManager "'m option"
  | CallDisableFontFallback
  | CallClearFontFamilyCache
  | CallCreateSktFontCollection
  | CallGetFontManagersCount

fun step :: "'m platform \<Rightarrow> 'm call \<Rightarrow> 'm state \<Rightarrow> 'm state" where
  "step pf (CallSetupDefaultFontManager d) s = SetupDefaultFontManager pf d s"
| "step pf (CallSetDefaultFontManager m) s = SetDefaultFontManager m s"
| "step pf (CallSetAssetFontManager m) s = SetAssetFontManager m s"
| "step pf (CallSetDynamicFontManager m) s = SetDynamicFontManager m s"
| "step pf (CallSetTestFontManager m) s = SetTestFontManager m s"
| "step pf CallDisableFontFallback s = DisableFontFallback s"
| "step pf CallClearFontFamilyCache s = ClearFontFamilyCache s"
| "step pf CallCreateSktFontCollection s = snd (CreateSktFontCollection pf s)"
| "step pf CallGetFontManagersCount s = s"

fun run :: "'m platform \<Rightarrow> 'm call list \<Rightarrow> 'm state \<Rightarrow> 'm state" where
  "run pf [] s = s"
| "run pf (c # cs) s = run pf cs (step pf c s)"

fun is_slot_mutator :: "'m call \<Rightarrow> bool" where
  "is_slot_mutator (CallSetupDefaultFontManager d) = True"
| "is_slot_mutator (CallSetDefaultFontManager m) = True"
| "is_slot_mutator (CallSetAssetFontManager m) = True"
| "is_slot_mutator (CallSetDynamicFontManager m) = True"
| "is_slot_mutator (CallSetTestFontManager m) = True"
| "is_slot_mutator c = False"

text \<open>
  A state is well formed when the registry's pointer, if set, names an object of the
  store. The constructor's state is well formed and every operation keeps it so.
\<close>

fun wf_state :: "'m state \<Rightarrow> bool" where
  "wf_state (fc, h) = (case skt_collection fc of None \<Rightarrow> True | Some p \<Rightarrow> p < length h)"

text \<open>
  The composite that \<^verbatim>\<open>CreateSktFontCollection\<close> builds from a registry: the object
  as it stands once the constructor and the wiring calls have run.
\<close>

definition built_from :: "'m platform \<Rightarrow> 'm FontCollection \<Rightarrow> 'm SktFontCollection" where
  "built_from pf fc =
     \<lparr>default_provider = default_font_manager fc,
      default_families = GetDefaultFontFamilies pf,
      asset_provider = asset_font_manager fc,
      dynamic_provider = dynamic_font_manager fc,
      test_provider = test_font_manager fc,
      fallback_enabled = enable_font_fallback fc,
      family_memo = []\<rparr>"

text \<open>
  Once fallback is disabled the flag is off and the cached composite, if there is one,
  has its toggle off as well. This is the invariant behind the one-way property.
\<close>

fun fallback_off :: "'m state \<Rightarrow> bool" where
  "fallback_off (fc, h) =
     (\<not> enable_font_fallback fc \<and>
      (case skt_collection fc of
         None \<Rightarrow> True
       | Some p \<Rightarrow> p < length h \<and> \<not> fallback_enabled (h ! p)))"

text \<open>
  A platform for the concrete instances: the factory yields no provider for the
  selector 0, and two default families are configured.
\<close>

definition example_platform :: "nat platform" where
  "example_platform =
     \<lparr>GetDefaultFontManager = (\<lambda>d. if d = 0 then None else Some (unat d)),
      GetDefaultFontFamilies = [''Roboto'', ''sans-serif'']\<rparr>"

text \<open>The state a freshly constructed registry starts in, with nothing allocated.\<close>

definition initial_state :: "nat state" where
  "initial_state = (FontCollection_new, [])"


section \<open>Properties\<close>

subsection \<open>Helper lemmas\<close>

lemma copy_families_append: "copy_families acc fs = acc @ fs"
  by (induction fs arbitrary: acc) (simp_all add: push_back_def)

lemma invoke_last: "invoke (length h) f (h @ [x]) = h @ [f x]"
  by (simp add: invoke_def)

lemma CreateSktFontCollection_cached_eq:
  "skt_collection fc = Some p \<Longrightarrow> CreateSktFontCollection pf (fc, h) = (Some p, (fc, h))"
  by simp

lemma CreateSktFontCollection_build_eq:
  "skt_collection fc = None \<Longrightarrow>
   CreateSktFontCollection pf (fc, h) =
     (Some (length h), (fc\<lparr>skt_collection := Some (length h)\<rparr>, h @ [built_from pf fc]))"
  by (cases "enable_font_fallback fc")
     (simp_all add: Let_def sk_make_sp_def invoke_last copy_families_append built_from_def
        SktFontCollection_new_def setDefaultFontManager_def setAssetFontManager_def
        setDynamicFontManager_def setTestFontManager_def disableFontFallback_def)

lemmas Create_eqs = CreateSktFontCollection_build_eq CreateSktFontCollection_cached_eq

lemma CreateSktFontCollection_again:
  "CreateSktFontCollection pf (snd (CreateSktFontCollection pf s)) =
   CreateSktFontCollection pf s"
proof (cases s)
  case (Pair fc h)
  show ?thesis
  proof (cases "skt_collection fc")
    case None
    then show ?thesis
      unfolding Pair by (simp add: Create_eqs del: CreateSktFontCollection.simps)
  next
    case (Some p)
    then show ?thesis
      unfolding Pair by (simp add: Create_eqs del: CreateSktFontCollection.simps)
  qed
qed

lemma CreateSktFontCollection_not_null: "fst (CreateSktFontCollection pf s) \<noteq> None"
  by (cases s; cases "skt_collection (fst s)")
     (simp_all add: Create_eqs del: CreateSktFontCollection.simps)

lemma CreateSktFontCollection_iterate:
  "((\<lambda>s. snd (CreateSktFontCollection pf s)) ^^ n) (snd (CreateSktFontCollection pf s)) =
   snd (CreateSktFontCollection pf s)"
  by (induction n) (simp_all add: CreateSktFontCollection_again)

lemma step_slot_mutator:
  "is_slot_mutator c \<Longrightarrow>
   skt_collection (fst (step pf c (fc, h))) = None \<and> snd (step pf c (fc, h)) = h"
  by (cases c) simp_all

lemma wf_state_Create: "wf_state s \<Longrightarrow> wf_state (snd (CreateSktFontCollection pf s))"
  by (cases s; cases "skt_collection (fst s)")
     (simp_all add: Create_eqs del: CreateSktFontCollection.simps)

lemma wf_state_step: "wf_state s \<Longrightarrow> wf_state (step pf c s)"
proof (cases s)
  case (Pair fc h)
  assume wf: "wf_state s"
  show ?thesis
  proof (cases c)
    case CallCreateSktFontCollection
    with wf show ?thesis by (simp add: wf_state_Create del: CreateSktFontCollection.simps)
  next
    case CallClearFontFamilyCache
    with wf Pair show ?thesis by (cases "skt_collection fc") (simp_all add: invoke_def)
  next
    case CallDisableFontFallback
    with wf Pair show ?thesis by (cases "skt_collection fc") (simp_all add: invoke_def)
  qed (use wf Pair in simp_all)
qed

lemma wf_state_run: "wf_state s \<Longrightarrow> wf_state (run pf cs s)"
  by (induction cs arbitrary: s) (simp_all add: wf_state_step)

lemma wf_state_initial: "wf_state (FontCollection_new, [])"
  by (simp add: FontCollection_new_def)

lemma fallback_off_DisableFontFallback:
  "wf_state s \<Longrightarrow> fallback_off (DisableFontFallback s)"
  by (cases s; cases "skt_collection (fst s)") (simp_all add: invoke_def disableFontFallback_def)

lemma fallback_off_Create:
  "fallback_off s \<Longrightarrow> fallback_off (snd (CreateSktFontCollection pf s))"
  by (cases s; cases "skt_collection (fst s)")
     (simp_all add: Create_eqs built_from_def del: CreateSktFontCollection.simps)

lemma fallback_off_Clear: "fallback_off s \<Longrightarrow> fallback_off (ClearFontFamilyCache s)"
  by (cases s; cases "skt_collection (fst s)") (simp_all add: invoke_def clearCaches_def)

lemma fallback_off_Disable: "fallback_off s \<Longrightarrow> fallback_off (DisableFontFallback s)"
  by (cases s; cases "skt_collection (fst s)") (simp_all add: invoke_def disableFontFallback_def)

lemma fallback_off_step: "fallback_off s \<Longrightarrow> fallback_off (step pf c s)"
proof (cases s)
  case (Pair fc h)
  assume inv: "fallback_off s"
  show ?thesis
  proof (cases c)
    case CallCreateSktFontCollection
    with inv show ?thesis by (simp add: fallback_off_Create del: CreateSktFontCollection.simps)
  next
    case CallClearFontFamilyCache
    with inv show ?thesis by (simp add: fallback_off_Clear del: ClearFontFamilyCache.simps)
  next
    case CallDisableFontFallback
    with inv show ?thesis by (simp add: fallback_off_Disable del: DisableFontFallback.simps)
  qed (use inv Pair in simp_all)
qed

lemma fallback_off_run: "fallback_off s \<Longrightarrow> fallback_off (run pf cs s)"
  by (induction cs arbitrary: s) (simp_all add: fallback_off_step)

text \<open>Evaluation of the model on the concrete instances used below.\<close>

lemmas eval_simps =
  example_platform_def initial_state_def FontCollection_new_def SktFontCollection_new_def
  GetFontManagerOrder_def GetFontManagersCount_def push_back_def sk_make_sp_def invoke_def
  setDefaultFontManager_def setAssetFontManager_def setDynamicFontManager_def
  setTestFontManager_def disableFontFallback_def clearCaches_def built_from_def Let_def

subsection \<open>Provider order and count\<close>

text \<open>
  C1. In every registry state, \<^verbatim>\<open>GetFontManagerOrder\<close> returns the four slots in the
  order dynamic, asset, test, default with the empty ones dropped, and the result has
  no null entry. The statement is about every state, so it holds whatever calls, in
  whatever order, filled the slots.
\<close>

theorem GetFontManagerOrder_priority:
  "GetFontManagerOrder fc =
     filter (\<lambda>m. m \<noteq> None)
       [dynamic_font_manager fc, asset_font_manager fc, test_font_manager fc,
        default_font_manager fc]
   \<and> None \<notin> set (GetFontManagerOrder fc)"
proof -
  have eq: "GetFontManagerOrder fc =
     filter (\<lambda>m. m \<noteq> None)
       [dynamic_font_manager fc, asset_font_manager fc, test_font_manager fc,
        default_font_manager fc]"
    by (simp add: GetFontManagerOrder_def push_back_def)
  have "None \<notin> set (filter (\<lambda>m. m \<noteq> None)
       [dynamic_font_manager fc, asset_font_manager fc, test_font_manager fc,
        default_font_manager fc])"
    unfolding set_filter by blast
  with eq show ?thesis by simp
qed

text \<open>
  The spec's two examples, with the slots assigned against the priority order: asset and
  default give [asset, default]; all four give [dynamic, asset, test, default].
\<close>

lemma GetFontManagerOrder_examples:
  "GetFontManagerOrder (fst (run example_platform
      [CallSetDefaultFontManager (Some 4), CallSetAssetFontManager (Some 2)] initial_state))
     = [Some 2, Some 4]"
  "GetFontManagerOrder (fst (run example_platform
      [CallSetDefaultFontManager (Some 4), CallSetTestFontManager (Some 3),
       CallSetAssetFontManager (Some 2), CallSetDynamicFontManager (Some 1)] initial_state))
     = [Some 1, Some 2, Some 3, Some 4]"
  by (simp_all add: eval_simps)

text \<open>
  C4. \<^verbatim>\<open>GetFontManagersCount\<close> is the length of what \<^verbatim>\<open>GetFontManagerOrder\<close>
  returns, in every state; it is the number of non-empty slots and at most four.
\<close>

theorem GetFontManagersCount_consistent:
  "GetFontManagersCount fc = length (GetFontManagerOrder fc)
   \<and> GetFontManagersCount fc =
       length (filter (\<lambda>m. m \<noteq> None)
         [dynamic_font_manager fc, asset_font_manager fc, test_font_manager fc,
          default_font_manager fc])
   \<and> GetFontManagersCount fc \<le> 4"
  by (simp add: GetFontManagersCount_def GetFontManagerOrder_def push_back_def)

subsection \<open>The cached composite\<close>

text \<open>
  C2. After a first call of \<^verbatim>\<open>CreateSktFontCollection\<close>, any number \<open>n\<close> of further
  calls leave the state as the first call left it, and one more call returns the
  reference the first call returned, which is not null.
\<close>

theorem CreateSktFontCollection_cached:
  "((\<lambda>s. snd (CreateSktFontCollection pf s)) ^^ n) (snd (CreateSktFontCollection pf s)) =
     snd (CreateSktFontCollection pf s)
   \<and> fst (CreateSktFontCollection pf
        (((\<lambda>s. snd (CreateSktFontCollection pf s)) ^^ n)
           (snd (CreateSktFontCollection pf s)))) =
     fst (CreateSktFontCollection pf s)
   \<and> fst (CreateSktFontCollection pf s) \<noteq> None"
  by (simp add: CreateSktFontCollection_iterate CreateSktFontCollection_again
      CreateSktFontCollection_not_null)

text \<open>
  C10. \<^verbatim>\<open>CreateSktFontCollection\<close> leaves the flag and the four slots of the registry
  as they were.
\<close>

theorem CreateSktFontCollection_frame:
  "enable_font_fallback (fst (snd (CreateSktFontCollection pf s))) =
     enable_font_fallback (fst s)
   \<and> default_font_manager (fst (snd (CreateSktFontCollection pf s))) =
     default_font_manager (fst s)
   \<and> asset_font_manager (fst (snd (CreateSktFontCollection pf s))) =
     asset_font_manager (fst s)
   \<and> dynamic_font_manager (fst (snd (CreateSktFontCollection pf s))) =
     dynamic_font_manager (fst s)
   \<and> test_font_manager (fst (snd (CreateSktFontCollection pf s))) =
     test_font_manager (fst s)"
  by (cases s; cases "skt_collection (fst s)")
     (simp_all add: Create_eqs del: CreateSktFontCollection.simps)

text \<open>
  C3. In a well-formed state, after one of the five slot mutators, or after
  \<^verbatim>\<open>DisableFontFallback\<close> on a registry with no composite, the next
  \<^verbatim>\<open>CreateSktFontCollection\<close> allocates: the reference it returns is the next free one,
  so it differs from the one the registry held before and from every object made so far.
  The one object added to the store is given field by field from the state before the
  mutator and the mutator's argument: the slot the mutator names holds the handle it was
  given (for \<^verbatim>\<open>SetupDefaultFontManager\<close>, what the platform factory returns for the
  initialisation data), the other slots hold what the registry held, the families are the
  platform's, the memo is empty, and fallback is off after \<^verbatim>\<open>DisableFontFallback\<close> and
  as the registry's flag says otherwise. The registry afterwards is given in the same way,
  with the new reference in it.
\<close>

theorem slot_mutator_invalidates:
  assumes "wf_state s"
    and "is_slot_mutator c \<or> (c = CallDisableFontFallback \<and> skt_collection (fst s) = None)"
  shows "fst (CreateSktFontCollection pf (step pf c s)) = Some (length (snd s))
     \<and> fst (CreateSktFontCollection pf (step pf c s)) \<noteq> skt_collection (fst s)
     \<and> fst (snd (CreateSktFontCollection pf (step pf c s))) =
         (fst (step pf c s))\<lparr>skt_collection := Some (length (snd s))\<rparr>
     \<and> snd (snd (CreateSktFontCollection pf (step pf c s))) =
         snd s @ [built_from pf (fst (step pf c s))]
     \<and> snd (snd (CreateSktFontCollection pf (step pf c s))) =
         snd s @
         [\<lparr>default_provider =
             (case c of
                CallSetupDefaultFontManager d \<Rightarrow> GetDefaultFontManager pf d
              | CallSetDefaultFontManager m \<Rightarrow> m
              | _ \<Rightarrow> default_font_manager (fst s)),
           default_families = GetDefaultFontFamilies pf,
           asset_provider =
             (case c of
                CallSetAssetFontManager m \<Rightarrow> m
              | _ \<Rightarrow> asset_font_manager (fst s)),
           dynamic_provider =
             (case c of
                CallSetDynamicFontManager m \<Rightarrow> m
              | _ \<Rightarrow> dynamic_font_manager (fst s)),
           test_provider =
             (case c of
                CallSetTestFontManager m \<Rightarrow> m
              | _ \<Rightarrow> test_font_manager (fst s)),
           fallback_enabled =
             (case c of
                CallDisableFontFallback \<Rightarrow> False
              | _ \<Rightarrow> enable_font_fallback (fst s)),
           family_memo = []\<rparr>]
     \<and> fst (snd (CreateSktFontCollection pf (step pf c s))) =
         \<lparr>enable_font_fallback =
            (case c of
               CallDisableFontFallback \<Rightarrow> False
             | _ \<Rightarrow> enable_font_fallback (fst s)),
          default_font_manager =
            (case c of
               CallSetupDefaultFontManager d \<Rightarrow> GetDefaultFontManager pf d
             | CallSetDefaultFontManager m \<Rightarrow> m
             | _ \<Rightarrow> default_font_manager (fst s)),
          asset_font_manager =
            (case c of
               CallSetAssetFontManager m \<Rightarrow> m
             | _ \<Rightarrow> asset_font_manager (fst s)),
          dynamic_font_manager =
            (case c of
               CallSetDynamicFontManager m \<Rightarrow> m
             | _ \<Rightarrow> dynamic_font_manager (fst s)),
          test_font_manager =
            (case c of
               CallSetTestFontManager m \<Rightarrow> m
             | _ \<Rightarrow> test_font_manager (fst s)),
          skt_collection = Some (length (snd s))\<rparr>"
proof (cases s)
  case (Pair fc h)
  have fresh: "Some (length h) \<noteq> skt_collection fc"
    using assms(1) unfolding Pair by (cases "skt_collection fc") simp_all
  show ?thesis
  proof (cases c)
    case (CallSetupDefaultFontManager d)
    show ?thesis
      unfolding Pair CallSetupDefaultFontManager using fresh
      by (simp add: CreateSktFontCollection_build_eq built_from_def
          del: CreateSktFontCollection.simps)
  next
    case (CallSetDefaultFontManager m)
    show ?thesis
      unfolding Pair CallSetDefaultFontManager using fresh
      by (simp add: CreateSktFontCollection_build_eq built_from_def
          del: CreateSktFontCollection.simps)
  next
    case (CallSetAssetFontManager m)
    show ?thesis
      unfolding Pair CallSetAssetFontManager using fresh
      by (simp add: CreateSktFontCollection_build_eq built_from_def
          del: CreateSktFontCollection.simps)
  next
    case (CallSetDynamicFontManager m)
    show ?thesis
      unfolding Pair CallSetDynamicFontManager using fresh
      by (simp add: CreateSktFontCollection_build_eq built_from_def
          del: CreateSktFontCollection.simps)
  next
    case (CallSetTestFontManager m)
    show ?thesis
      unfolding Pair CallSetTestFontManager using fresh
      by (simp add: CreateSktFontCollection_build_eq built_from_def
          del: CreateSktFontCollection.simps)
  next
    case CallDisableFontFallback
    with assms(2) Pair have absent: "skt_collection fc = None" by simp
    show ?thesis
      unfolding Pair CallDisableFontFallback using absent
      by (simp add: CreateSktFontCollection_build_eq built_from_def
          del: CreateSktFontCollection.simps)
  next
    case CallClearFontFamilyCache
    with assms(2) show ?thesis by simp
  next
    case CallCreateSktFontCollection
    with assms(2) show ?thesis by simp
  next
    case CallGetFontManagersCount
    with assms(2) show ?thesis by simp
  qed
qed

text \<open>
  The state is that of a registry whose asset slot was set and whose composite was then
  built; the dynamic slot is reassigned and the next call returns reference 1, not 0,
  to a composite with both slots. The second instance disables fallback on a new
  registry: the first build yields a composite with fallback off.
\<close>

theorem slot_mutator_invalidates_witness:
  "wf_state (run example_platform
       [CallSetAssetFontManager (Some 2), CallCreateSktFontCollection] initial_state)
   \<and> is_slot_mutator (CallSetDynamicFontManager (Some (1::nat)))
   \<and> skt_collection (fst (run example_platform
       [CallSetAssetFontManager (Some 2), CallCreateSktFontCollection] initial_state)) = Some 0
   \<and> CreateSktFontCollection example_platform
       (step example_platform (CallSetDynamicFontManager (Some 1))
         (run example_platform
           [CallSetAssetFontManager (Some 2), CallCreateSktFontCollection] initial_state)) =
     (Some 1,
      \<lparr>enable_font_fallback = True, default_font_manager = None,
       asset_font_manager = Some 2, dynamic_font_manager = Some 1,
       test_font_manager = None, skt_collection = Some 1\<rparr>,
      [\<lparr>default_provider = None, default_families = [''Roboto'', ''sans-serif''],
        asset_provider = Some 2, dynamic_provider = None, test_provider = None,
        fallback_enabled = True, family_memo = []\<rparr>,
       \<lparr>default_provider = None, default_families = [''Roboto'', ''sans-serif''],
        asset_provider = Some 2, dynamic_provider = Some 1, test_provider = None,
        fallback_enabled = True, family_memo = []\<rparr>])
   \<and> wf_state initial_state
   \<and> skt_collection (fst initial_state) = None
   \<and> CreateSktFontCollection example_platform
       (step example_platform CallDisableFontFallback initial_state) =
     (Some 0,
      \<lparr>enable_font_fallback = False, default_font_manager = None,
       asset_font_manager = None, dynamic_font_manager = None,
       test_font_manager = None, skt_collection = Some 0\<rparr>,
      [\<lparr>default_provider = None, default_families = [''Roboto'', ''sans-serif''],
        asset_provider = None, dynamic_provider = None, test_provider = None,
        fallback_enabled = False, family_memo = []\<rparr>])"
  using slot_mutator_invalidates
          [of "run example_platform
                 [CallSetAssetFontManager (Some 2), CallCreateSktFontCollection] initial_state"
              "CallSetDynamicFontManager (Some 1)" example_platform]
        slot_mutator_invalidates
          [of initial_state CallDisableFontFallback example_platform]
  by (simp add: eval_simps copy_families_append)

subsection \<open>Operations on an existing composite\<close>

lemma ClearFontFamilyCache_present:
  "skt_collection fc = Some p \<Longrightarrow> p < length h \<Longrightarrow>
   ClearFontFamilyCache (fc, h) = (fc, h[p := (h ! p)\<lparr>family_memo := []\<rparr>])"
  by (simp add: invoke_def clearCaches_def)

lemma DisableFontFallback_present:
  "skt_collection fc = Some p \<Longrightarrow> p < length h \<Longrightarrow>
   DisableFontFallback (fc, h) =
     (fc\<lparr>enable_font_fallback := False\<rparr>, h[p := (h ! p)\<lparr>fallback_enabled := False\<rparr>])"
  by (simp add: invoke_def disableFontFallback_def)

lemma DisableFontFallback_absent:
  "skt_collection fc = None \<Longrightarrow>
   DisableFontFallback (fc, h) = (fc\<lparr>enable_font_fallback := False\<rparr>, h)"
  by simp

lemma CreateSktFontCollection_stored:
  "skt_collection (fst (snd (CreateSktFontCollection pf s))) =
   fst (CreateSktFontCollection pf s)"
  by (cases s; cases "skt_collection (fst s)")
     (simp_all add: Create_eqs del: CreateSktFontCollection.simps)

lemma CreateSktFontCollection_result:
  assumes "CreateSktFontCollection pf s = (r, s1)"
  shows "skt_collection (fst s1) = r \<and> r \<noteq> None"
  using CreateSktFontCollection_stored[of pf s] CreateSktFontCollection_not_null[of pf s]
  unfolding assms by simp

text \<open>
  Every state that calls on a new registry can reach is well formed.
\<close>

lemma wf_state_reachable: "wf_state (run pf cs (FontCollection_new, []))"
  by (rule wf_state_run[OF wf_state_initial])

text \<open>
  C6. In a well-formed state, let \<^verbatim>\<open>CreateSktFontCollection\<close> return \<open>r\<close>. After
  \<^verbatim>\<open>ClearFontFamilyCache\<close> the next \<^verbatim>\<open>CreateSktFontCollection\<close> returns the same
  \<open>r\<close> and changes nothing; the registry is as it was before the clearing, slots and
  flag included; and the store differs only in the object that \<open>r\<close> names, whose memo
  is now empty.
\<close>

theorem ClearFontFamilyCache_keeps_composite:
  assumes "wf_state s" and "CreateSktFontCollection pf s = (r, s1)"
  shows "CreateSktFontCollection pf (ClearFontFamilyCache s1) = (r, ClearFontFamilyCache s1)
     \<and> fst (ClearFontFamilyCache s1) = fst s1
     \<and> (case r of
           None \<Rightarrow> False
         | Some p \<Rightarrow>
             p < length (snd s1)
             \<and> snd (ClearFontFamilyCache s1) =
                 (snd s1)[p := (snd s1 ! p)\<lparr>family_memo := []\<rparr>])"
proof -
  obtain fc1 h1 where s1: "s1 = (fc1, h1)" by (cases s1)
  from CreateSktFontCollection_result[OF assms(2)] obtain p
    where r: "r = Some p" and cached: "skt_collection fc1 = Some p"
    unfolding s1 by (cases r) simp_all
  have "wf_state s1"
    using wf_state_Create[OF assms(1), of pf] assms(2) by simp
  then have bound: "p < length h1"
    unfolding s1 using cached by simp
  have clear: "ClearFontFamilyCache (fc1, h1) = (fc1, h1[p := (h1 ! p)\<lparr>family_memo := []\<rparr>])"
    by (rule ClearFontFamilyCache_present[OF cached bound])
  show ?thesis
    unfolding s1 clear r using cached bound
    by (simp add: Create_eqs del: CreateSktFontCollection.simps)
qed

text \<open>
  A registry whose composite has memoised one family: the same reference comes back
  and the memo is empty.
\<close>

theorem ClearFontFamilyCache_keeps_composite_witness:
  "wf_state
     (\<lparr>enable_font_fallback = True, default_font_manager = Some (4::nat),
       asset_font_manager = None, dynamic_font_manager = None,
       test_font_manager = None, skt_collection = Some 0\<rparr>,
      [\<lparr>default_provider = Some 4, default_families = [''Roboto'', ''sans-serif''],
        asset_provider = None, dynamic_provider = None, test_provider = None,
        fallback_enabled = True, family_memo = [''Roboto'']\<rparr>])
   \<and> CreateSktFontCollection example_platform
     (\<lparr>enable_font_fallback = True, default_font_manager = Some 4,
       asset_font_manager = None, dynamic_font_manager = None,
       test_font_manager = None, skt_collection = Some 0\<rparr>,
      [\<lparr>default_provider = Some 4, default_families = [''Roboto'', ''sans-serif''],
        asset_provider = None, dynamic_provider = None, test_provider = None,
        fallback_enabled = True, family_memo = [''Roboto'']\<rparr>]) =
     (Some 0,
      \<lparr>enable_font_fallback = True, default_font_manager = Some 4,
       asset_font_manager = None, dynamic_font_manager = None,
       test_font_manager = None, skt_collection = Some 0\<rparr>,
      [\<lparr>default_provider = Some 4, default_families = [''Roboto'', ''sans-serif''],
        asset_provider = None, dynamic_provider = None, test_provider = None,
        fallback_enabled = True, family_memo = [''Roboto'']\<rparr>])
   \<and> CreateSktFontCollection example_platform
       (ClearFontFamilyCache
         (\<lparr>enable_font_fallback = True, default_font_manager = Some 4,
           asset_font_manager = None, dynamic_font_manager = None,
           test_font_manager = None, skt_collection = Some 0\<rparr>,
          [\<lparr>default_provider = Some 4, default_families = [''Roboto'', ''sans-serif''],
            asset_provider = None, dynamic_provider = None, test_provider = None,
            fallback_enabled = True, family_memo = [''Roboto'']\<rparr>])) =
     (Some 0,
      \<lparr>enable_font_fallback = True, default_font_manager = Some 4,
       asset_font_manager = None, dynamic_font_manager = None,
       test_font_manager = None, skt_collection = Some 0\<rparr>,
      [\<lparr>default_provider = Some 4, default_families = [''Roboto'', ''sans-serif''],
        asset_provider = None, dynamic_provider = None, test_provider = None,
        fallback_enabled = True, family_memo = []\<rparr>])"
  using ClearFontFamilyCache_keeps_composite
          [of "(\<lparr>enable_font_fallback = True, default_font_manager = Some (4::nat),
                 asset_font_manager = None, dynamic_font_manager = None,
                 test_font_manager = None, skt_collection = Some 0\<rparr>,
                [\<lparr>default_provider = Some 4, default_families = [''Roboto'', ''sans-serif''],
                  asset_provider = None, dynamic_provider = None, test_provider = None,
                  fallback_enabled = True, family_memo = [''Roboto'']\<rparr>])"
              example_platform "Some 0"
              "(\<lparr>enable_font_fallback = True, default_font_manager = Some (4::nat),
                 asset_font_manager = None, dynamic_font_manager = None,
                 test_font_manager = None, skt_collection = Some 0\<rparr>,
                [\<lparr>default_provider = Some 4, default_families = [''Roboto'', ''sans-serif''],
                  asset_provider = None, dynamic_provider = None, test_provider = None,
                  fallback_enabled = True, family_memo = [''Roboto'']\<rparr>])"]
  by (simp add: eval_simps)

text \<open>
  C9. On a registry with no composite, \<^verbatim>\<open>ClearFontFamilyCache\<close> returns the state
  it was given: nothing is built, and slots, flag, absent composite and store are
  unchanged.
\<close>

theorem ClearFontFamilyCache_absent_noop:
  "skt_collection (fst s) = None \<Longrightarrow> ClearFontFamilyCache s = s"
  by (cases s) simp

text \<open>
  A registry whose composite was built and then invalidated by a slot mutator: the
  stale object stays in the store and nothing changes.
\<close>

theorem ClearFontFamilyCache_absent_noop_witness:
  "skt_collection (fst (run example_platform
       [CallSetAssetFontManager (Some 2), CallCreateSktFontCollection,
        CallSetTestFontManager (Some 3)] initial_state)) = None
   \<and> ClearFontFamilyCache (run example_platform
       [CallSetAssetFontManager (Some 2), CallCreateSktFontCollection,
        CallSetTestFontManager (Some 3)] initial_state) =
     (\<lparr>enable_font_fallback = True, default_font_manager = None,
       asset_font_manager = Some 2, dynamic_font_manager = None,
       test_font_manager = Some 3, skt_collection = None\<rparr>,
      [\<lparr>default_provider = None, default_families = [''Roboto'', ''sans-serif''],
        asset_provider = Some 2, dynamic_provider = None, test_provider = None,
        fallback_enabled = True, family_memo = []\<rparr>])"
  using ClearFontFamilyCache_absent_noop
          [of "run example_platform
                 [CallSetAssetFontManager (Some 2), CallCreateSktFontCollection,
                  CallSetTestFontManager (Some 3)] initial_state"]
  by (simp add: eval_simps copy_families_append)

subsection \<open>Disabling font fallback\<close>

text \<open>
  C8. In a well-formed state \<^verbatim>\<open>DisableFontFallback\<close> clears the registry's flag. If
  the registry holds a composite, the only other change is that this object's toggle is
  off, and the next \<^verbatim>\<open>CreateSktFontCollection\<close> returns the same reference and changes
  nothing. If it holds none, the store is untouched and the next build appends a
  composite with fallback off.
\<close>

theorem DisableFontFallback_in_place:
  assumes "wf_state (fc, h)"
  shows "case skt_collection fc of
       Some p \<Rightarrow>
         p < length h
         \<and> DisableFontFallback (fc, h) =
             (fc\<lparr>enable_font_fallback := False\<rparr>,
              h[p := (h ! p)\<lparr>fallback_enabled := False\<rparr>])
         \<and> \<not> fallback_enabled (snd (DisableFontFallback (fc, h)) ! p)
         \<and> CreateSktFontCollection pf (DisableFontFallback (fc, h)) =
             (Some p, DisableFontFallback (fc, h))
     | None \<Rightarrow>
         DisableFontFallback (fc, h) = (fc\<lparr>enable_font_fallback := False\<rparr>, h)
         \<and> CreateSktFontCollection pf (DisableFontFallback (fc, h)) =
             (Some (length h),
              fc\<lparr>enable_font_fallback := False, skt_collection := Some (length h)\<rparr>,
              h @ [(built_from pf fc)\<lparr>fallback_enabled := False\<rparr>])"
proof (cases "skt_collection fc")
  case None
  then show ?thesis
    by (simp add: DisableFontFallback_absent Create_eqs built_from_def
        del: DisableFontFallback.simps CreateSktFontCollection.simps)
next
  case (Some p)
  with assms have bound: "p < length h" by simp
  show ?thesis
    using Some bound
    by (simp add: DisableFontFallback_present Create_eqs
        del: DisableFontFallback.simps CreateSktFontCollection.simps)
qed

text \<open>
  Both cases: a registry with a built composite that has memoised a family, and a new
  registry.
\<close>

theorem DisableFontFallback_in_place_witness:
  "wf_state
     (\<lparr>enable_font_fallback = True, default_font_manager = Some (4::nat),
       asset_font_manager = None, dynamic_font_manager = None,
       test_font_manager = None, skt_collection = Some 0\<rparr>,
      [\<lparr>default_provider = Some 4, default_families = [''Roboto'', ''sans-serif''],
        asset_provider = None, dynamic_provider = None, test_provider = None,
        fallback_enabled = True, family_memo = [''Roboto'']\<rparr>])
   \<and> CreateSktFontCollection example_platform
       (DisableFontFallback
         (\<lparr>enable_font_fallback = True, default_font_manager = Some 4,
           asset_font_manager = None, dynamic_font_manager = None,
           test_font_manager = None, skt_collection = Some 0\<rparr>,
          [\<lparr>default_provider = Some 4, default_families = [''Roboto'', ''sans-serif''],
            asset_provider = None, dynamic_provider = None, test_provider = None,
            fallback_enabled = True, family_memo = [''Roboto'']\<rparr>])) =
     (Some 0,
      \<lparr>enable_font_fallback = False, default_font_manager = Some 4,
       asset_font_manager = None, dynamic_font_manager = None,
       test_font_manager = None, skt_collection = Some 0\<rparr>,
      [\<lparr>default_provider = Some 4, default_families = [''Roboto'', ''sans-serif''],
        asset_provider = None, dynamic_provider = None, test_provider = None,
        fallback_enabled = False, family_memo = [''Roboto'']\<rparr>])
   \<and> wf_state (FontCollection_new :: nat FontCollection, [])
   \<and> DisableFontFallback (FontCollection_new :: nat FontCollection, []) =
       (\<lparr>enable_font_fallback = False, default_font_manager = None,
         asset_font_manager = None, dynamic_font_manager = None,
         test_font_manager = None, skt_collection = None\<rparr>, [])
   \<and> CreateSktFontCollection example_platform
       (DisableFontFallback (FontCollection_new, [])) =
     (Some 0,
      \<lparr>enable_font_fallback = False, default_font_manager = None,
       asset_font_manager = None, dynamic_font_manager = None,
       test_font_manager = None, skt_collection = Some 0\<rparr>,
      [\<lparr>default_provider = None, default_families = [''Roboto'', ''sans-serif''],
        asset_provider = None, dynamic_provider = None, test_provider = None,
        fallback_enabled = False, family_memo = []\<rparr>])"
  using DisableFontFallback_in_place
          [of "\<lparr>enable_font_fallback = True, default_font_manager = Some (4::nat),
                 asset_font_manager = None, dynamic_font_manager = None,
                 test_font_manager = None, skt_collection = Some 0\<rparr>"
              "[\<lparr>default_provider = Some 4, default_families = [''Roboto'', ''sans-serif''],
                  asset_provider = None, dynamic_provider = None, test_provider = None,
                  fallback_enabled = True, family_memo = [''Roboto'']\<rparr>]"
              example_platform]
        DisableFontFallback_in_place
          [of "FontCollection_new :: nat FontCollection" "[]" example_platform]
  by (simp add: eval_simps copy_families_append)

text \<open>
  C7 as stated: disabling fallback discards the cached composite, as a slot
  reassignment does. It does not. On a new registry the first build returns reference 0;
  after \<^verbatim>\<open>DisableFontFallback\<close> the registry still holds a composite and the next
  \<^verbatim>\<open>CreateSktFontCollection\<close> returns reference 0 again.
\<close>

theorem DisableFontFallback_invalidates_counterexample:
  "fst (CreateSktFontCollection example_platform initial_state) = Some 0
   \<and> skt_collection
       (fst (DisableFontFallback (snd (CreateSktFontCollection example_platform initial_state))))
     \<noteq> None
   \<and> fst (CreateSktFontCollection example_platform
       (DisableFontFallback (snd (CreateSktFontCollection example_platform initial_state))))
     = Some 0"
  by (simp add: eval_simps)

text \<open>
  C7, amended. On a registry holding a composite, each of the five slot mutators
  leaves the registry without a composite, and \<^verbatim>\<open>DisableFontFallback\<close> does not: the
  registry holds the same reference afterwards and the next
  \<^verbatim>\<open>CreateSktFontCollection\<close> returns it.
\<close>

theorem invalidation_by_slot_mutators_only:
  assumes "skt_collection (fst s) = Some p"
  shows "skt_collection (fst (SetupDefaultFontManager pf d s)) = None
     \<and> skt_collection (fst (SetDefaultFontManager m s)) = None
     \<and> skt_collection (fst (SetAssetFontManager m s)) = None
     \<and> skt_collection (fst (SetDynamicFontManager m s)) = None
     \<and> skt_collection (fst (SetTestFontManager m s)) = None
     \<and> skt_collection (fst (DisableFontFallback s)) = Some p
     \<and> fst (CreateSktFontCollection pf (DisableFontFallback s)) = Some p"
  using assms by (cases s) (simp add: Let_def)

text \<open>
  On a registry whose composite was just built, setting the asset slot discards the
  composite, and disabling fallback keeps it and switches its toggle off.
\<close>

theorem invalidation_by_slot_mutators_only_witness:
  "skt_collection (fst (snd (CreateSktFontCollection example_platform initial_state))) = Some 0
   \<and> skt_collection (fst (SetAssetFontManager (Some 2)
        (snd (CreateSktFontCollection example_platform initial_state)))) = None
   \<and> DisableFontFallback (snd (CreateSktFontCollection example_platform initial_state)) =
       (\<lparr>enable_font_fallback = False, default_font_manager = None,
         asset_font_manager = None, dynamic_font_manager = None,
         test_font_manager = None, skt_collection = Some 0\<rparr>,
        [\<lparr>default_provider = None, default_families = [''Roboto'', ''sans-serif''],
          asset_provider = None, dynamic_provider = None, test_provider = None,
          fallback_enabled = False, family_memo = []\<rparr>])
   \<and> fst (CreateSktFontCollection example_platform
        (DisableFontFallback (snd (CreateSktFontCollection example_platform initial_state))))
       = Some 0"
  using invalidation_by_slot_mutators_only
          [of "snd (CreateSktFontCollection example_platform initial_state)" 0
              example_platform 0 "Some 2"]
  by (simp add: eval_simps)

text \<open>
  C5. From a well-formed state, after \<^verbatim>\<open>DisableFontFallback\<close> and then any sequence
  \<open>cs\<close> of calls on the registry, the flag is off, and a call of
  \<^verbatim>\<open>CreateSktFontCollection\<close> at that point returns a reference to a composite whose
  fallback toggle is off, and leaves the flag off. Every later build happens after some
  such sequence, so none has fallback enabled.
\<close>

theorem fallback_disable_one_way:
  assumes "wf_state s"
  shows "\<not> enable_font_fallback (fst (run pf cs (DisableFontFallback s)))
    \<and> (case CreateSktFontCollection pf (run pf cs (DisableFontFallback s)) of
         (None, s') \<Rightarrow> False
       | (Some p, s') \<Rightarrow>
           p < length (snd s') \<and> \<not> fallback_enabled (snd s' ! p)
           \<and> \<not> enable_font_fallback (fst s'))"
proof -
  let ?s = "run pf cs (DisableFontFallback s)"
  have inv: "fallback_off ?s"
    using assms by (simp add: fallback_off_DisableFontFallback fallback_off_run)
  obtain fc h where st: "?s = (fc, h)" by (cases ?s)
  show ?thesis
    using inv unfolding st
    by (cases "skt_collection fc")
       (simp_all add: Create_eqs built_from_def del: CreateSktFontCollection.simps)
qed

text \<open>
  Fallback is disabled while a composite exists; the default slot is then set up from
  the platform, which discards the composite, and the caches are cleared. The rebuilt
  composite, at reference 1, has fallback off.
\<close>

theorem fallback_disable_one_way_witness:
  "wf_state (run example_platform
       [CallSetAssetFontManager (Some 2), CallCreateSktFontCollection] initial_state)
   \<and> CreateSktFontCollection example_platform
       (run example_platform
          [CallSetupDefaultFontManager 7, CallClearFontFamilyCache]
          (DisableFontFallback (run example_platform
             [CallSetAssetFontManager (Some 2), CallCreateSktFontCollection] initial_state))) =
     (Some 1,
      \<lparr>enable_font_fallback = False, default_font_manager = Some 7,
       asset_font_manager = Some 2, dynamic_font_manager = None,
       test_font_manager = None, skt_collection = Some 1\<rparr>,
      [\<lparr>default_provider = None, default_families = [''Roboto'', ''sans-serif''],
        asset_provider = Some 2, dynamic_provider = None, test_provider = None,
        fallback_enabled = False, family_memo = []\<rparr>,
       \<lparr>default_provider = Some 7, default_families = [''Roboto'', ''sans-serif''],
        asset_provider = Some 2, dynamic_provider = None, test_provider = None,
        fallback_enabled = False, family_memo = []\<rparr>])
   \<and> \<not> enable_font_fallback (fst (run example_platform
          [CallSetupDefaultFontManager 7, CallClearFontFamilyCache]
          (DisableFontFallback (run example_platform
             [CallSetAssetFontManager (Some 2), CallCreateSktFontCollection] initial_state))))"
  using fallback_disable_one_way
          [of "run example_platform
                 [CallSetAssetFontManager (Some 2), CallCreateSktFontCollection] initial_state"
              example_platform "[CallSetupDefaultFontManager 7, CallClearFontFamilyCache]"]
  by (simp add: eval_simps copy_families_append)

end
